theory Spec2Isabelle
  imports Main
begin

section \<open>Strings\<close>

text \<open>
  Python strings are modelled as \<^typ>\<open>string\<close>, read as sequences of code points
  below 256. On this range \<^verbatim>\<open>str.isspace\<close> and the regular expression class
  \<^verbatim>\<open>\s\<close> hold of exactly the twelve code points of \<open>py_isspace\<close>, \<^verbatim>\<open>\d\<close>
  holds of exactly the ten ASCII digits, \<^verbatim>\<open>.\<close> (without DOTALL) excludes exactly
  the line feed, and under \<^verbatim>\<open>(?i)\<close> an ASCII letter of a pattern matches exactly
  its two cases.
\<close>

definition py_isspace :: "char \<Rightarrow> bool" where
  "py_isspace c = (c \<in> set [CHR 0x09, CHR 0x0A, CHR 0x0B, CHR 0x0C, CHR 0x0D,
      CHR 0x1C, CHR 0x1D, CHR 0x1E, CHR 0x1F, CHR 0x20, CHR 0x85, CHR 0xA0])"

definition py_isdigit :: "char \<Rightarrow> bool" where
  "py_isdigit c = (c \<in> set ''0123456789'')"

definition not_newline :: "char \<Rightarrow> bool" where
  "not_newline c = (c \<noteq> CHR 0x0A)"

definition ascii_lower :: "char \<Rightarrow> char" where
  "ascii_lower c =
     (case map_of (zip ''ABCDEFGHIJKLMNOPQRSTUVWXYZ'' ''abcdefghijklmnopqrstuvwxyz'') c of
        Some d \<Rightarrow> d | None \<Rightarrow> c)"

text \<open>\<^verbatim>\<open>s.strip()\<close>: leading and trailing whitespace removed.\<close>

definition py_lstrip :: "string \<Rightarrow> string" where
  "py_lstrip s = dropWhile py_isspace s"

definition py_rstrip :: "string \<Rightarrow> string" where
  "py_rstrip s = rev (dropWhile py_isspace (rev s))"

definition py_strip :: "string \<Rightarrow> string" where
  "py_strip s = py_rstrip (py_lstrip s)"

text \<open>\<^verbatim>\<open>s.split(sep, 1)\<close> for a one-character separator: at most one split, at the
  first occurrence.\<close>

definition py_split1 :: "char \<Rightarrow> string \<Rightarrow> string list" where
  "py_split1 sep s =
     (if sep \<in> set s
      then [takeWhile (\<lambda>c. c \<noteq> sep) s, tl (dropWhile (\<lambda>c. c \<noteq> sep) s)]
      else [s])"

text \<open>\<^verbatim>\<open>s.split(sep)\<close> for a one-character separator: every occurrence splits, and
  the empty string gives one empty piece.\<close>

fun py_split :: "char \<Rightarrow> string \<Rightarrow> string list" where
  "py_split sep [] = [[]]"
| "py_split sep (c # cs) =
     (if c = sep then [] # py_split sep cs
      else (case py_split sep cs of
              p # ps \<Rightarrow> (c # p) # ps
            | [] \<Rightarrow> [[c]]))"

text \<open>\<^verbatim>\<open>sep.join(xs)\<close>.\<close>

fun py_join :: "string \<Rightarrow> string list \<Rightarrow> string" where
  "py_join sep [] = []"
| "py_join sep [x] = x"
| "py_join sep (x # y # ys) = x @ sep @ py_join sep (y # ys)"

definition startswith :: "string \<Rightarrow> string \<Rightarrow> bool" where
  "startswith s w = (take (length w) s = w)"

section \<open>Regular expressions\<close>

text \<open>
  Python's \<^verbatim>\<open>re\<close> matches by backtracking. A pattern is modelled as a function from
  the text at the current position to the list of texts that may remain after it, in
  the order in which the backtracking matcher tries them (a greedy repetition offers
  its longest match first). The first element of the list of a whole pattern is the
  match that Python reports.
\<close>

type_synonym rx = "string \<Rightarrow> string list"

definition lit :: "string \<Rightarrow> rx" where
  "lit w s = (if take (length w) s = w then [drop (length w) s] else [])"

definition ci_eq :: "string \<Rightarrow> string \<Rightarrow> bool" where
  "ci_eq v w = (map ascii_lower v = map ascii_lower w)"

definition lit_ci :: "string \<Rightarrow> rx" where
  "lit_ci w s = (if ci_eq (take (length w) s) w then [drop (length w) s] else [])"

definition star :: "(char \<Rightarrow> bool) \<Rightarrow> rx" where
  "star p s = map (\<lambda>n. drop n s) (rev [0 ..< Suc (length (takeWhile p s))])"

definition plus :: "(char \<Rightarrow> bool) \<Rightarrow> rx" where
  "plus p s = map (\<lambda>n. drop n s) (rev [1 ..< Suc (length (takeWhile p s))])"

definition opt :: "rx \<Rightarrow> rx" where
  "opt r s = r s @ [s]"

definition alt :: "rx \<Rightarrow> rx \<Rightarrow> rx" where
  "alt r1 r2 s = r1 s @ r2 s"

definition seq :: "rx \<Rightarrow> rx \<Rightarrow> rx" where
  "seq r1 r2 s = concat (map r2 (r1 s))"

definition cls :: "(char \<Rightarrow> bool) \<Rightarrow> rx" where
  "cls p s = (case s of [] \<Rightarrow> [] | c # cs \<Rightarrow> if p c then [cs] else [])"

text \<open>\<^verbatim>\<open>$\<close> without MULTILINE: the end of the text, or just before a line feed that
  ends the text.\<close>

definition eol :: rx where
  "eol s = (if s = [] \<or> s = [CHR 0x0A] then [s] else [])"

text \<open>A capturing group: the text consumed by the pattern, with what remains.\<close>

definition cap :: "rx \<Rightarrow> string \<Rightarrow> (string \<times> string) list" where
  "cap r s = map (\<lambda>rest. (take (length s - length rest) s, rest)) (r s)"

text \<open>\<^verbatim>\<open>pattern.match\<close> tries the start of the text only; \<^verbatim>\<open>pattern.search\<close> tries
  every position from left to right, the end of the text included.\<close>

definition re_match :: "(string \<Rightarrow> 'a list) \<Rightarrow> string \<Rightarrow> 'a option" where
  "re_match r s = (case r s of [] \<Rightarrow> None | m # _ \<Rightarrow> Some m)"

fun re_search :: "(string \<Rightarrow> 'a list) \<Rightarrow> string \<Rightarrow> 'a option" where
  "re_search r [] = re_match r []"
| "re_search r (c # cs) =
     (case re_match r (c # cs) of Some m \<Rightarrow> Some m | None \<Rightarrow> re_search r cs)"

section \<open>Release note categories\<close>

definition TITLE_CHANGES :: string where "TITLE_CHANGES = ''_Changes:_''"
definition TITLE_BUG_FIX :: string where "TITLE_BUG_FIX = ''**Bug Fix:**''"
definition TITLE_NEW_FEATURE :: string where "TITLE_NEW_FEATURE = ''_New Features:_''"
definition TITLE_DOCUMENTATION :: string where "TITLE_DOCUMENTATION = ''Documentation:''"
definition TITLE_OTHER :: string where "TITLE_OTHER = ''Other:''"

definition LABEL_RELEASE_NOTE_NONE :: string where
  "LABEL_RELEASE_NOTE_NONE = ''release-note-none''"

definition KINDS :: "string \<rightharpoonup> string" where
  "KINDS = map_of
     [(''feat'', TITLE_NEW_FEATURE),
      (''fix'', TITLE_BUG_FIX),
      (''refactor'', TITLE_CHANGES),
      (''docs'', TITLE_DOCUMENTATION)]"

definition DEFAULT_KIND :: string where "DEFAULT_KIND = TITLE_OTHER"

definition SORTED_KINDS :: "string list" where
  "SORTED_KINDS =
     [TITLE_BUG_FIX, TITLE_NEW_FEATURE, TITLE_CHANGES, TITLE_DOCUMENTATION, TITLE_OTHER]"

text \<open>\<^verbatim>\<open>d.get(k, default)\<close>.\<close>

definition dict_get :: "('k \<rightharpoonup> 'v) \<Rightarrow> 'k \<Rightarrow> 'v \<Rightarrow> 'v" where
  "dict_get d k dflt = (case d k of Some v \<Rightarrow> v | None \<Rightarrow> dflt)"

section \<open>Classifying and rendering notes\<close>

text \<open>\<^verbatim>\<open>TAG_MATCHER_RE = ^([^( ]+)\((.*)\)$\<close>: the two groups of each way to match.\<close>

definition TAG_MATCHER_RE :: "string \<Rightarrow> (string \<times> string) list" where
  "TAG_MATCHER_RE s =
     [(g1, g2).
        (g1, s1) \<leftarrow> cap (plus (\<lambda>c. c \<noteq> CHR ''('' \<and> c \<noteq> CHR '' '')) s,
        s2 \<leftarrow> lit ''('' s1,
        (g2, s3) \<leftarrow> cap (star not_newline) s2,
        s4 \<leftarrow> lit '')'' s3,
        s5 \<leftarrow> eol s4]"

text \<open>The body of the loop of \<^verbatim>\<open>join_notes\<close> up to the dictionary update, in three
  steps: the split on the first colon, the scope of a conventional commit, and the
  category with the final summary.\<close>

definition split_item :: "string \<Rightarrow> string \<times> string" where
  "split_item item =
     (let parts = py_split1 CHR '':'' item;
          parts = (if length parts \<noteq> 2 then [[], item] else parts)
      in (py_strip (parts ! 0), py_strip (parts ! 1)))"

definition strip_scope :: "string \<times> string \<Rightarrow> string \<times> string" where
  "strip_scope ts =
     (let (tag, summary) = ts
      in if CHR ''('' \<in> set tag
         then (case re_match TAG_MATCHER_RE tag of
                 Some (g1, scope) \<Rightarrow>
                   (g1, if scope \<noteq> [] \<and> scope \<noteq> ''*''
                        then scope @ '': '' @ summary else summary)
               | None \<Rightarrow> (tag, summary))
         else (tag, summary))"

definition classify :: "string \<Rightarrow> string \<times> string" where
  "classify item =
     (let (tag, summary) = strip_scope (split_item item);
          kind = dict_get KINDS tag DEFAULT_KIND;
          summary = (if tag \<noteq> [] \<and> CHR '' '' \<in> set tag then item else summary)
      in (kind, summary))"

definition add_note :: "(string \<rightharpoonup> string list) \<Rightarrow> string \<Rightarrow> (string \<rightharpoonup> string list)" where
  "add_note releases item =
     (let (kind, summary) = classify item;
          releases = (if releases kind = None then releases(kind \<mapsto> []) else releases)
      in releases(kind \<mapsto> dict_get releases kind [] @ [summary]))"

definition group_notes :: "string list \<Rightarrow> (string \<rightharpoonup> string list)" where
  "group_notes items = foldl add_note Map.empty items"

definition render_section :: "string \<Rightarrow> string list \<Rightarrow> string" where
  "render_section kind items_list =
     kind @ [CHR 0x0A] @ ''- '' @ py_join [CHR 0x0A] (map (\<lambda>item. ''- '' @ item) items_list)
       @ [CHR 0x0A]"

definition render_sections :: "(string \<rightharpoonup> string list) \<Rightarrow> string list" where
  "render_sections releases =
     concat (map (\<lambda>kind. case releases kind of
                            Some items_list \<Rightarrow> [render_section kind items_list]
                          | None \<Rightarrow> [])
                 SORTED_KINDS)"

definition join_notes :: "string list \<Rightarrow> string" where
  "join_notes items = py_join [CHR 0x0A] (render_sections (group_notes items))"

section \<open>Excluding merge requests\<close>

text \<open>
  \<^verbatim>\<open>NOTE_EXCLUSION_FILTERS\<close>; the first pattern is
  \<^verbatim>\<open>(?i)```release-note[s]?\s*('|\")?(none|n/a|na)?('|\")?\s*```\<close>,
  the second \<^verbatim>\<open>/release-note-none\<close>.
\<close>

definition quote_char :: "char \<Rightarrow> bool" where
  "quote_char c = (c = CHR 0x27 \<or> c = CHR 0x22)"

definition fence :: string where
  "fence = [CHR 0x60, CHR 0x60, CHR 0x60]"

definition FILTER_NONE_BLOCK :: rx where
  "FILTER_NONE_BLOCK =
     seq (lit_ci (fence @ ''release-note''))
    (seq (opt (lit_ci ''s''))
    (seq (star py_isspace)
    (seq (opt (cls quote_char))
    (seq (opt (alt (lit_ci ''none'') (alt (lit_ci ''n/a'') (lit_ci ''na''))))
    (seq (opt (cls quote_char))
    (seq (star py_isspace)
         (lit_ci fence)))))))"

definition FILTER_NONE_TAG :: rx where
  "FILTER_NONE_TAG = lit ''/release-note-none''"

definition NOTE_EXCLUSION_FILTERS :: "rx list" where
  "NOTE_EXCLUSION_FILTERS = [FILTER_NONE_BLOCK, FILTER_NONE_TAG]"

definition matches_exclude_filter :: "string \<Rightarrow> bool" where
  "matches_exclude_filter msg =
     list_ex (\<lambda>filter_re. re_search filter_re msg \<noteq> None) NOTE_EXCLUSION_FILTERS"

definition is_in_array :: "'a \<Rightarrow> 'a list \<Rightarrow> bool" where
  "is_in_array item array = (item \<in> set array)"

section \<open>Forge data\<close>

text \<open>
  The dictionaries that the forge client builds, with the keys that the release note
  logic reads. The client fills every one of these keys (a missing description is the
  empty string), so the defaults of \<^verbatim>\<open>.get\<close> are never taken. A timestamp is a
  \<^verbatim>\<open>datetime\<close>, a point on the time line; every \<^verbatim>\<open>datetime\<close> is truthy.
\<close>

type_synonym datetime = int

record tag =
  tag_name :: string
  tag_commit_id :: string
  tag_commit_created_at :: datetime

record commit =
  commit_id :: string
  commit_message :: string
  commit_created_at :: datetime

record merge_request =
  mr_iid :: int
  mr_title :: string
  mr_description :: string
  mr_web_url :: string
  mr_labels :: "string list"
  mr_author_username :: string

datatype py_exception = Exception string

text \<open>The client: each call returns its value or raises (\<open>Inl\<close>); a lookup that
  finds nothing returns \<^verbatim>\<open>None\<close>.\<close>

record client =
  list_tags :: "string \<Rightarrow> py_exception + tag list"
  get_commit :: "string \<Rightarrow> string \<Rightarrow> py_exception + commit option"
  list_commits ::
    "string \<Rightarrow> string \<Rightarrow> datetime option \<Rightarrow> datetime option \<Rightarrow> py_exception + commit list"
  get_merge_request :: "string \<Rightarrow> int \<Rightarrow> py_exception + merge_request option"

section \<open>Rendering merge requests\<close>

text \<open>\<^verbatim>\<open>str(n)\<close> for an integer.\<close>

fun str_nat :: "nat \<Rightarrow> string" where
  "str_nat n =
     (if n < 10 then [''0123456789'' ! n]
      else str_nat (n div 10) @ [''0123456789'' ! (n mod 10)])"

declare str_nat.simps [simp del]

definition py_str_int :: "int \<Rightarrow> string" where
  "py_str_int i = (if i < 0 then ''-'' @ str_nat (nat (- i)) else str_nat (nat i))"

definition mr_note :: "merge_request \<Rightarrow> string" where
  "mr_note mr =
     mr_title mr @ '' ([!'' @ py_str_int (mr_iid mr) @ '']('' @ mr_web_url mr @ '')) @''
       @ mr_author_username mr"

definition generate_release_notes ::
  "merge_request list \<Rightarrow> (merge_request \<Rightarrow> bool) \<Rightarrow> string" where
  "generate_release_notes mrs condition = join_notes (map mr_note (filter condition mrs))"

section \<open>From commits to merge requests\<close>

text \<open>
  \<^verbatim>\<open>int(s)\<close> on a text of ASCII digits, the only texts that group 1 of the trailer
  pattern can hold; \<open>None\<close> stands for \<^verbatim>\<open>ValueError\<close>, which the caller turns
  into 0. Numerals of any length are read, as by an interpreter that sets no limit on
  the number of digits of a conversion (\<^verbatim>\<open>sys.set_int_max_str_digits(0)\<close>); under a
  limit, a longer numeral raises \<^verbatim>\<open>ValueError\<close>.
\<close>

definition digit_val :: "char \<Rightarrow> nat" where
  "digit_val c = of_char c - 48"

definition py_int :: "string \<Rightarrow> int option" where
  "py_int s =
     (if s \<noteq> [] \<and> list_all py_isdigit s
      then Some (int (foldl (\<lambda>a c. 10 * a + digit_val c) 0 s))
      else None)"

text \<open>The trailer pattern \<^verbatim>\<open>\n\nSee merge request .+!(\d+)$\<close>: group 1 of each way
  to match.\<close>

definition trailer_prefix :: string where
  "trailer_prefix = [CHR 0x0A, CHR 0x0A] @ ''See merge request ''"

definition TRAILER_RE :: "string \<Rightarrow> string list" where
  "TRAILER_RE s =
     [g.
        s1 \<leftarrow> lit trailer_prefix s,
        s2 \<leftarrow> plus not_newline s1,
        s3 \<leftarrow> lit ''!'' s2,
        (g, s4) \<leftarrow> cap (plus py_isdigit) s3,
        s5 \<leftarrow> eol s4]"

definition mr_num_for_commit_from_message :: "string \<Rightarrow> int" where
  "mr_num_for_commit_from_message msg =
     (case re_search TRAILER_RE msg of
        None \<Rightarrow> 0
      | Some g \<Rightarrow> (case py_int g of Some n \<Rightarrow> n | None \<Rightarrow> 0))"

text \<open>
  The identifiers that \<^verbatim>\<open>mr_from_commits\<close> collects from the commit messages, in
  the order of the commits.
\<close>

definition mr_iids :: "commit list \<Rightarrow> int list" where
  "mr_iids commits =
     filter (\<lambda>iid. iid > 0) (map (\<lambda>c. mr_num_for_commit_from_message (commit_message c)) commits)"

text \<open>
  One fetch is submitted per collected identifier; a future is modelled by its
  identifier with the outcome of its fetch. \<^verbatim>\<open>as_completed\<close> yields the futures in the order in which the workers finish;
  that order is a parameter of the model. The size of the pool only bounds how many
  fetches run at once. A fetch that raises or finds nothing is logged and left out.
\<close>

type_synonym future = "int \<times> (py_exception + merge_request option)"

definition collect_result :: "future \<Rightarrow> merge_request list" where
  "collect_result fut =
     (case snd fut of
        Inl e \<Rightarrow> []
      | Inr None \<Rightarrow> []
      | Inr (Some mr) \<Rightarrow> [mr])"

definition submit_all :: "commit list \<Rightarrow> client \<Rightarrow> string \<Rightarrow> future list" where
  "submit_all commits cl project =
     map (\<lambda>iid. (iid, get_merge_request cl project iid)) (mr_iids commits)"

definition mr_from_commits ::
  "(future list \<Rightarrow> future list) \<Rightarrow> commit list \<Rightarrow> client \<Rightarrow> string
     \<Rightarrow> merge_request list" where
  "mr_from_commits as_completed commits cl project =
     (if commits = [] then []
      else if mr_iids commits = [] then []
      else concat (map collect_result (as_completed (submit_all commits cl project))))"

section \<open>The range of a tag and the pipeline\<close>

type_synonym range = "bool \<times> datetime option \<times> datetime option"

text \<open>The first tag of a given name, as the two loops with \<^verbatim>\<open>break\<close> find it.\<close>

definition find_tag :: "tag list \<Rightarrow> string \<Rightarrow> tag option" where
  "find_tag tags n = find (\<lambda>t. tag_name t = n) tags"

text \<open>The scan of the automatic detection, on the state
  \<open>(tag_exists, since_at, until_at)\<close>.\<close>

fun auto_detect :: "tag list \<Rightarrow> string \<Rightarrow> range \<Rightarrow> range" where
  "auto_detect [] target st = st"
| "auto_detect (t # tags) target (tag_exists, since_at, until_at) =
     (if tag_name t = target
      then auto_detect tags target (True, since_at, Some (tag_commit_created_at t))
      else (tag_exists, Some (tag_commit_created_at t), until_at))"

text \<open>The branch taken when \<^verbatim>\<open>since\<close> is given (and not empty).\<close>

definition explicit_since :: "client \<Rightarrow> string \<Rightarrow> tag list \<Rightarrow> string \<Rightarrow> string \<Rightarrow> range" where
  "explicit_since cl project tags target since =
     (let (tag_exists, until_at) =
            (case find_tag tags target of
               Some t \<Rightarrow> (True, Some (tag_commit_created_at t))
             | None \<Rightarrow> (False, None));
          since_at =
            (case find_tag tags since of
               Some t \<Rightarrow> Some (tag_commit_created_at t)
             | None \<Rightarrow>
                 (case get_commit cl project since of
                    Inr (Some commit_info) \<Rightarrow> Some (commit_created_at commit_info)
                  | Inr None \<Rightarrow> None
                  | Inl e \<Rightarrow> None))
      in (tag_exists, since_at, until_at))"

definition resolve_range ::
  "client \<Rightarrow> string \<Rightarrow> tag list \<Rightarrow> string \<Rightarrow> string option \<Rightarrow> range" where
  "resolve_range cl project tags target since =
     (let st = (case since of
                  Some s \<Rightarrow> if s \<noteq> [] then explicit_since cl project tags target s
                            else (False, None, None)
                | None \<Rightarrow> (False, None, None))
      in if fst (snd st) = None then auto_detect tags target st else st)"

definition condition :: "merge_request \<Rightarrow> bool" where
  "condition mr =
     (let exclude = (matches_exclude_filter (mr_description mr)
                     \<or> is_in_array LABEL_RELEASE_NOTE_NONE (mr_labels mr))
      in \<not> exclude)"

text \<open>The commits handed to \<^verbatim>\<open>mr_from_commits\<close>.\<close>

definition skip_boundary :: "commit list \<Rightarrow> datetime option \<Rightarrow> commit list" where
  "skip_boundary commits since_at =
     (if commits \<noteq> [] \<and> since_at \<noteq> None then drop 1 commits else commits)"

definition get_release_notes_by_tag ::
  "(future list \<Rightarrow> future list) \<Rightarrow> client \<Rightarrow> string \<Rightarrow> string \<Rightarrow> string \<Rightarrow> string option
     \<Rightarrow> bool \<times> string \<times> py_exception option" where
  "get_release_notes_by_tag as_completed cl project target ref since =
     (case list_tags cl project of
        Inl e \<Rightarrow> (False, [], Some e)
      | Inr tags \<Rightarrow>
          if tags = [] then (False, [], Some (Exception ''No tags found in project''))
          else
            (let (tag_exists, since_at, until_at) = resolve_range cl project tags target since
             in case list_commits cl project ref since_at until_at of
                  Inl e \<Rightarrow> (False, [], Some e)
                | Inr commits \<Rightarrow>
                    if commits = [] then (tag_exists, [], None)
                    else
                      (let commits = skip_boundary commits since_at;
                           mrs = mr_from_commits as_completed commits cl project;
                           release_notes = generate_release_notes mrs condition
                       in (tag_exists, release_notes, None))))"

section \<open>Re-parsing the rendered notes\<close>

text \<open>
  \<^verbatim>\<open>parse_release_notes\<close> of the batch command: the rendered markdown is read line
  by line; a line that starts with a category header selects the category, and a
  line that starts with \<^verbatim>\<open>-\<close> adds an item to the selected category. The state of
  the loop is the result dictionary with \<open>current_category\<close>.
\<close>

definition categories :: "(string \<times> string) list" where
  "categories =
     [(''**Bug Fix:**'', ''bug_fixes''),
      (''_New Features:_'', ''new_features''),
      (''_Changes:_'', ''changes''),
      (''Documentation:'', ''documentation''),
      (''Other:'', ''other'')]"

definition find_category :: "string \<Rightarrow> string option" where
  "find_category line =
     map_option snd (find (\<lambda>(category_header, category_key). startswith line category_header)
                          categories)"

definition parse_line ::
  "string \<Rightarrow> (string \<rightharpoonup> string list) \<times> string option \<Rightarrow> string
     \<Rightarrow> (string \<rightharpoonup> string list) \<times> string option" where
  "parse_line project_name st raw =
     (let (result, current_category) = st;
          line = py_strip raw
      in if line = [] then (result, current_category)
         else (case find_category line of
                 Some category_key \<Rightarrow> (result, Some category_key)
               | None \<Rightarrow>
                   (case current_category of
                      Some cat \<Rightarrow>
                        if startswith line ''-''
                        then (result(cat \<mapsto> dict_get result cat []
                                @ [''**'' @ project_name @ ''**: '' @ py_strip (drop 1 line)]),
                              current_category)
                        else (result, current_category)
                    | None \<Rightarrow> (result, current_category))))"

definition parse_release_notes :: "string \<Rightarrow> string \<Rightarrow> (string \<rightharpoonup> string list)" where
  "parse_release_notes release_notes project_name =
     fst (foldl (parse_line project_name) (Map.empty, None) (py_split CHR 0x0A release_notes))"

section \<open>The specification's wording\<close>







section \<open>Example data\<close>

definition example_tags :: "tag list" where
  "example_tags =
     [\<lparr>tag_name = ''v3'', tag_commit_id = ''c3'', tag_commit_created_at = 3\<rparr>,
      \<lparr>tag_name = ''v2'', tag_commit_id = ''c2'', tag_commit_created_at = 2\<rparr>,
      \<lparr>tag_name = ''v1'', tag_commit_id = ''c1'', tag_commit_created_at = 1\<rparr>]"

definition example_commits :: "commit list" where
  "example_commits =
     [\<lparr>commit_id = ''a1'',
       commit_message = ''Merge branch 'old' into 'main'\<newline>\<newline>See merge request grp/prj!9'',
       commit_created_at = 2\<rparr>,
      \<lparr>commit_id = ''a2'',
       commit_message = ''Merge branch 'crash' into 'main'\<newline>\<newline>See merge request grp/prj!11'',
       commit_created_at = 3\<rparr>]"

definition example_mr :: "int \<Rightarrow> merge_request" where
  "example_mr iid =
     \<lparr>mr_iid = iid, mr_title = ''fix: crash'', mr_description = [],
      mr_web_url = ''http://forge/mr'', mr_labels = [], mr_author_username = ''bob''\<rparr>"

definition zero_commit :: commit where
  "zero_commit =
     \<lparr>commit_id = ''a0'',
      commit_message = ''Merge branch 'z' into 'main'\<newline>\<newline>See merge request grp/prj!0'',
      commit_created_at = 2\<rparr>"

text \<open>A forge with the given tags on which every lookup succeeds, and one on which
  every commit lookup and every fetch of a merge request raises.\<close>

definition example_client :: "tag list \<Rightarrow> client" where
  "example_client tags =
     \<lparr>list_tags = (\<lambda>project. Inr tags),
      get_commit = (\<lambda>project ref. Inr None),
      list_commits = (\<lambda>project ref since_at until_at. Inr example_commits),
      get_merge_request = (\<lambda>project iid. Inr (Some (example_mr iid)))\<rparr>"

definition failing_client :: client where
  "failing_client =
     \<lparr>list_tags = (\<lambda>project. Inr example_tags),
      get_commit = (\<lambda>project ref. Inl (Exception ''lookup failed'')),
      list_commits = (\<lambda>project ref since_at until_at. Inr example_commits),
      get_merge_request = (\<lambda>project iid. Inl (Exception ''fetch failed''))\<rparr>"

section \<open>Facts about the patterns\<close>

lemma in_lit: "r \<in> set (lit w s) \<longleftrightarrow> s = w @ r"
  by (auto simp: lit_def) (metis append_take_drop_id)

lemma take_takeWhile_all:
  assumes "n \<le> length (takeWhile p s)"
  shows "list_all p (take n s)"
proof -
  have "take n s = take n (takeWhile p s @ dropWhile p s)" by simp
  also have "\<dots> = take n (takeWhile p s)" using assms by (simp del: takeWhile_dropWhile_id)
  finally have "set (take n s) \<subseteq> set (takeWhile p s)" by (simp add: set_take_subset)
  then show ?thesis by (auto simp: list_all_iff dest: set_takeWhileD)
qed

lemma length_takeWhile_prefix:
  assumes "list_all p w"
  shows "length w \<le> length (takeWhile p (w @ r))"
proof -
  have "takeWhile p (w @ r) = w @ takeWhile p r"
    using assms by (intro takeWhile_append2) (simp add: list_all_iff)
  then show ?thesis by simp
qed


lemma in_plus: "r \<in> set (plus p s) \<longleftrightarrow> (\<exists>w. s = w @ r \<and> w \<noteq> [] \<and> list_all p w)"
proof
  assume "r \<in> set (plus p s)"
  then obtain n where n: "n \<le> length (takeWhile p s)" and n1: "1 \<le> n" and r: "r = drop n s"
    by (auto simp: plus_def less_Suc_eq_le simp del: upt_Suc)
  have "s = take n s @ r" using r by simp
  moreover have "take n s \<noteq> []"
    using n n1 by (metis length_takeWhile_le le_trans not_one_le_zero take_eq_Nil list.size(3) le_zero_eq)
  ultimately show "\<exists>w. s = w @ r \<and> w \<noteq> [] \<and> list_all p w"
    using take_takeWhile_all[OF n] by blast
next
  assume "\<exists>w. s = w @ r \<and> w \<noteq> [] \<and> list_all p w"
  then obtain w where s: "s = w @ r" and ne: "w \<noteq> []" and w: "list_all p w" by blast
  have "length w \<le> length (takeWhile p s)" unfolding s by (rule length_takeWhile_prefix[OF w])
  moreover have "r = drop (length w) s" using s by simp
  moreover have "1 \<le> length w" using ne by (cases w) auto
  ultimately show "r \<in> set (plus p s)" unfolding plus_def by (auto simp: image_iff less_Suc_eq_le simp del: upt_Suc intro!: bexI[of _ "length w"])
qed

lemma in_eol: "r \<in> set (eol s) \<longleftrightarrow> r = s \<and> (s = [] \<or> s = [CHR 0x0A])"
  by (auto simp: eol_def)

lemma in_cap: "(g, r) \<in> set (cap rx s) \<longleftrightarrow> r \<in> set (rx s) \<and> g = take (length s - length r) s"
  by (auto simp: cap_def)







lemma re_match_Some: "re_match r s = Some m \<longleftrightarrow> (r s \<noteq> [] \<and> m = hd (r s))"
  by (auto simp: re_match_def split: list.splits)

lemma re_match_None: "re_match r s = None \<longleftrightarrow> r s = []"
  by (auto simp: re_match_def split: list.splits)

lemma re_search_Some:
  "re_search r s = Some m \<Longrightarrow> \<exists>pre t. s = pre @ t \<and> r t \<noteq> [] \<and> m = hd (r t)"
proof (induction s)
  case Nil
  then show ?case by (auto simp: re_match_Some)
next
  case (Cons c cs)
  show ?case
  proof (cases "re_match r (c # cs)")
    case None
    with Cons.prems have "re_search r cs = Some m" by simp
    from Cons.IH[OF this] obtain pre t where "cs = pre @ t" "r t \<noteq> []" "m = hd (r t)" by blast
    then have "c # cs = (c # pre) @ t" by simp
    then show ?thesis using \<open>r t \<noteq> []\<close> \<open>m = hd (r t)\<close> by blast
  next
    case (Some a)
    with Cons.prems have "a = m" by simp
    with Some have "r (c # cs) \<noteq> []" "m = hd (r (c # cs))" by (auto simp: re_match_Some)
    then show ?thesis by (metis append_Nil)
  qed
qed

lemma re_search_None: "re_search r s = None \<longleftrightarrow> (\<forall>pre t. s = pre @ t \<longrightarrow> r t = [])"
proof (induction s)
  case Nil
  then show ?case by (simp add: re_match_None)
next
  case (Cons c cs)
  show ?case
  proof
    assume a: "re_search r (c # cs) = None"
    then have m: "r (c # cs) = []" and "re_search r cs = None"
      by (auto simp: re_match_None split: option.splits)
    with Cons.IH have ih: "\<forall>pre t. cs = pre @ t \<longrightarrow> r t = []" by simp
    show "\<forall>pre t. c # cs = pre @ t \<longrightarrow> r t = []"
    proof (intro allI impI)
      fix pre t assume e: "c # cs = pre @ t"
      show "r t = []"
      proof (cases pre)
        case Nil
        with e m show ?thesis by simp
      next
        case (Cons a pre')
        with e have "cs = pre' @ t" by simp
        with ih show ?thesis by blast
      qed
    qed
  next
    assume a: "\<forall>pre t. c # cs = pre @ t \<longrightarrow> r t = []"
    then have "r (c # cs) = []" by (metis append_Nil)
    then have "re_match r (c # cs) = None" by (simp add: re_match_None)
    moreover have "\<forall>pre t. cs = pre @ t \<longrightarrow> r t = []"
      using a by (metis append_Cons)
    ultimately show "re_search r (c # cs) = None"
      using Cons.IH by simp
  qed
qed

lemma kinds_mapping:
  "dict_get KINDS tag DEFAULT_KIND =
     (if tag = ''feat'' then TITLE_NEW_FEATURE
      else if tag = ''fix'' then TITLE_BUG_FIX
      else if tag = ''refactor'' then TITLE_CHANGES
      else if tag = ''docs'' then TITLE_DOCUMENTATION
      else TITLE_OTHER)"
  by (simp add: dict_get_def KINDS_def DEFAULT_KIND_def)

lemma tag_matcher_groups:
  assumes "(g1, scope) \<in> set (TAG_MATCHER_RE t)"
  shows "g1 \<noteq> [] \<and> CHR '' '' \<notin> set g1 \<and> CHR ''('' \<notin> set g1 \<and> CHR ''('' \<in> set t"
proof -
  from assms obtain s1 s2
    where c: "(g1, s1) \<in> set (cap (plus (\<lambda>c. c \<noteq> CHR ''('' \<and> c \<noteq> CHR '' '')) t)"
      and l: "s2 \<in> set (lit ''('' s1)"
    by (auto simp: TAG_MATCHER_RE_def)
  from c obtain w
    where t: "t = w @ s1"
      and w: "w \<noteq> []" "list_all (\<lambda>c. c \<noteq> CHR ''('' \<and> c \<noteq> CHR '' '') w"
      and g: "g1 = take (length t - length s1) t"
    by (auto simp: in_cap in_plus)
  from t g have "g1 = w" by simp
  moreover from l have "s1 = ''('' @ s2" by (simp add: in_lit)
  ultimately show ?thesis using t w by (auto simp: list_all_iff)
qed

lemma in_TRAILER_RE:
  "g \<in> set (TRAILER_RE s) \<longleftrightarrow>
     (\<exists>x e. s = trailer_prefix @ x @ ''!'' @ g @ e \<and> x \<noteq> [] \<and> list_all not_newline x
        \<and> g \<noteq> [] \<and> list_all py_isdigit g \<and> (e = [] \<or> e = [CHR 0x0A]))"
proof
  assume "g \<in> set (TRAILER_RE s)"
  then obtain s1 s2 s3 s4 s5
    where 1: "s1 \<in> set (lit trailer_prefix s)"
      and 2: "s2 \<in> set (plus not_newline s1)"
      and 3: "s3 \<in> set (lit ''!'' s2)"
      and 4: "(g, s4) \<in> set (cap (plus py_isdigit) s3)"
      and 5: "s5 \<in> set (eol s4)"
    by (auto simp: TRAILER_RE_def)
  from 2 obtain x where x: "s1 = x @ s2" "x \<noteq> []" "list_all not_newline x"
    by (auto simp: in_plus)
  from 4 obtain w where w: "s3 = w @ s4" "w \<noteq> []" "list_all py_isdigit w"
    and g: "g = take (length s3 - length s4) s3"
    by (auto simp: in_cap in_plus)
  from w g have gw: "g = w" by simp
  from 1 3 x w have "s = trailer_prefix @ x @ ''!'' @ g @ s4"
    by (simp add: in_lit gw)
  moreover from 5 have "s4 = [] \<or> s4 = [CHR 0x0A]" by (simp add: in_eol)
  ultimately show "\<exists>x e. s = trailer_prefix @ x @ ''!'' @ g @ e \<and> x \<noteq> [] \<and> list_all not_newline x
        \<and> g \<noteq> [] \<and> list_all py_isdigit g \<and> (e = [] \<or> e = [CHR 0x0A])"
    using x w gw by blast
next
  assume "\<exists>x e. s = trailer_prefix @ x @ ''!'' @ g @ e \<and> x \<noteq> [] \<and> list_all not_newline x
        \<and> g \<noteq> [] \<and> list_all py_isdigit g \<and> (e = [] \<or> e = [CHR 0x0A])"
  then obtain x e where s: "s = trailer_prefix @ x @ ''!'' @ g @ e"
    and x: "x \<noteq> []" "list_all not_newline x"
    and g: "g \<noteq> []" "list_all py_isdigit g" and e: "e = [] \<or> e = [CHR 0x0A]"
    by blast
  have 1: "x @ ''!'' @ g @ e \<in> set (lit trailer_prefix s)" by (simp add: in_lit s)
  have 2: "''!'' @ g @ e \<in> set (plus not_newline (x @ ''!'' @ g @ e))"
    using x by (auto simp: in_plus)
  have 3: "g @ e \<in> set (lit ''!'' (''!'' @ g @ e))" by (simp add: in_lit)
  have 4: "(g, e) \<in> set (cap (plus py_isdigit) (g @ e))"
    using g by (auto simp: in_cap in_plus)
  have 5: "e \<in> set (eol e)" using e by (auto simp: in_eol)
  show "g \<in> set (TRAILER_RE s)"
    unfolding TRAILER_RE_def using 1 2 3 4 5 by fastforce
qed

lemma trailing_digits:
  assumes "g \<noteq> []" and "list_all py_isdigit g" and "e = [] \<or> e = [CHR 0x0A]"
  shows "takeWhile py_isdigit (dropWhile (\<lambda>c. c = CHR 0x0A) (rev (u @ ''!'' @ g @ e))) = rev g"
proof -
  have nd: "\<not> py_isdigit CHR 0x0A" "\<not> py_isdigit CHR ''!''" by (simp_all add: py_isdigit_def)
  obtain d ds where r: "rev g = d # ds" using assms(1) by (cases "rev g") auto
  then have "d \<in> set g" by (metis list.set_intros(1) set_rev)
  with assms(2) have d: "py_isdigit d" by (simp add: list_all_iff)
  with nd have dn: "d \<noteq> CHR 0x0A" by auto
  have all: "\<forall>c\<in>set (rev g). py_isdigit c" using assms(2) by (simp add: list_all_iff)
  have "dropWhile (\<lambda>c. c = CHR 0x0A) (rev (u @ ''!'' @ g @ e)) = rev g @ CHR ''!'' # rev u"
    using assms(3) r dn by auto
  moreover have "takeWhile py_isdigit (rev g @ CHR ''!'' # rev u) = rev g"
    using all nd by (simp add: takeWhile_append2 del: set_rev)
  ultimately show ?thesis by simp
qed

lemma trailer_group_unique:
  assumes "u @ ''!'' @ g @ e = u' @ ''!'' @ g' @ e'"
    and "g \<noteq> []" "list_all py_isdigit g" "e = [] \<or> e = [CHR 0x0A]"
    and "g' \<noteq> []" "list_all py_isdigit g'" "e' = [] \<or> e' = [CHR 0x0A]"
  shows "g = g'"
proof -
  have "rev g = takeWhile py_isdigit (dropWhile (\<lambda>c. c = CHR 0x0A) (rev (u @ ''!'' @ g @ e)))"
    using trailing_digits[OF assms(2,3,4)] by simp
  also have "\<dots> = takeWhile py_isdigit (dropWhile (\<lambda>c. c = CHR 0x0A) (rev (u' @ ''!'' @ g' @ e')))"
    using assms(1) by simp
  also have "\<dots> = rev g'" using trailing_digits[OF assms(5,6,7)] by simp
  finally show ?thesis by simp
qed

lemma search_trailer:
  "re_search TRAILER_RE msg = Some g \<longleftrightarrow>
     (\<exists>pre x e. msg = pre @ trailer_prefix @ x @ ''!'' @ g @ e \<and> x \<noteq> [] \<and> list_all not_newline x
        \<and> g \<noteq> [] \<and> list_all py_isdigit g \<and> (e = [] \<or> e = [CHR 0x0A]))"
proof
  assume "re_search TRAILER_RE msg = Some g"
  from re_search_Some[OF this] obtain pre t
    where "msg = pre @ t" "TRAILER_RE t \<noteq> []" "g = hd (TRAILER_RE t)" by blast
  then have "msg = pre @ t" "g \<in> set (TRAILER_RE t)" by auto
  then show "\<exists>pre x e. msg = pre @ trailer_prefix @ x @ ''!'' @ g @ e \<and> x \<noteq> [] \<and> list_all not_newline x
        \<and> g \<noteq> [] \<and> list_all py_isdigit g \<and> (e = [] \<or> e = [CHR 0x0A])"
    unfolding in_TRAILER_RE by blast
next
  assume "\<exists>pre x e. msg = pre @ trailer_prefix @ x @ ''!'' @ g @ e \<and> x \<noteq> [] \<and> list_all not_newline x
        \<and> g \<noteq> [] \<and> list_all py_isdigit g \<and> (e = [] \<or> e = [CHR 0x0A])"
  then obtain pre x e where m: "msg = pre @ trailer_prefix @ x @ ''!'' @ g @ e"
    and c: "x \<noteq> []" "list_all not_newline x" "g \<noteq> []" "list_all py_isdigit g" "e = [] \<or> e = [CHR 0x0A]"
    by blast
  then have "g \<in> set (TRAILER_RE (trailer_prefix @ x @ ''!'' @ g @ e))"
    unfolding in_TRAILER_RE by blast
  then have "TRAILER_RE (trailer_prefix @ x @ ''!'' @ g @ e) \<noteq> []" by auto
  with m have "re_search TRAILER_RE msg \<noteq> None"
    unfolding re_search_None by blast
  then obtain g' where s: "re_search TRAILER_RE msg = Some g'" by auto
  from re_search_Some[OF this] obtain pre' t'
    where "msg = pre' @ t'" "TRAILER_RE t' \<noteq> []" "g' = hd (TRAILER_RE t')" by blast
  then have "msg = pre' @ t'" "g' \<in> set (TRAILER_RE t')" by auto
  then obtain x' e' where m': "msg = pre' @ trailer_prefix @ x' @ ''!'' @ g' @ e'"
    and c': "g' \<noteq> []" "list_all py_isdigit g'" "e' = [] \<or> e' = [CHR 0x0A]"
    unfolding in_TRAILER_RE by blast
  from m m' have "(pre @ trailer_prefix @ x) @ ''!'' @ g @ e = (pre' @ trailer_prefix @ x') @ ''!'' @ g' @ e'"
    by simp
  from trailer_group_unique[OF this c(3,4,5) c'] have "g = g'" .
  with s show "re_search TRAILER_RE msg = Some g" by simp
qed









lemma py_join_map_Cons:
  "py_join sep (map f (x # xs)) = f x @ concat (map (\<lambda>i. sep @ f i) xs)"
  by (induction xs arbitrary: x) simp_all

lemma join_notes_Nil: "join_notes [] = []"
  by (simp add: join_notes_def group_notes_def render_sections_def SORTED_KINDS_def)

lemma py_int_nonneg: "py_int s = Some n \<Longrightarrow> 0 \<le> n"
  by (auto simp: py_int_def split: if_splits)

lemma mr_num_nonneg: "0 \<le> mr_num_for_commit_from_message msg"
  by (auto simp: mr_num_for_commit_from_message_def split: option.splits dest: py_int_nonneg)



lemma py_int_zeros: "py_int (replicate (Suc k) CHR ''0'') = Some 0"
proof -
  have "foldl (\<lambda>a c. 10 * a + digit_val c) 0 (replicate j CHR ''0'') = 0" for j
    by (induction j) (simp_all add: digit_val_def)
  moreover have "list_all py_isdigit (replicate (Suc k) CHR ''0'')"
    by (simp add: list_all_iff py_isdigit_def)
  ultimately show ?thesis by (simp add: py_int_def del: replicate.simps)
qed

lemma mr_num_zero_digits:
  "mr_num_for_commit_from_message (pre @ ''!'' @ replicate (Suc k) CHR ''0'') = 0"
proof (cases "re_search TRAILER_RE (pre @ ''!'' @ replicate (Suc k) CHR ''0'')")
  case None
  then show ?thesis by (simp add: mr_num_for_commit_from_message_def)
next
  case (Some g)
  then obtain pre' x e
    where m: "pre @ ''!'' @ replicate (Suc k) CHR ''0'' = pre' @ trailer_prefix @ x @ ''!'' @ g @ e"
      and c: "g \<noteq> []" "list_all py_isdigit g" "e = [] \<or> e = [CHR 0x0A]"
    unfolding search_trailer by blast
  have z: "replicate (Suc k) CHR ''0'' \<noteq> []" "list_all py_isdigit (replicate (Suc k) CHR ''0'')"
    by (simp_all add: list_all_iff py_isdigit_def)
  from m have "pre @ ''!'' @ replicate (Suc k) CHR ''0'' @ [] = (pre' @ trailer_prefix @ x) @ ''!'' @ g @ e"
    by simp
  from trailer_group_unique[OF this z _ c] have "replicate (Suc k) CHR ''0'' = g" by simp
  with Some py_int_zeros[of k] show ?thesis
    by (simp add: mr_num_for_commit_from_message_def del: replicate.simps)
qed

section \<open>The range of a tag\<close>

text \<open>
  C1. With no \<^verbatim>\<open>since\<close>, the scan is to set \<open>tag_exists\<close> and \<open>until_at\<close> at the
  tag named like the target, and to take \<open>since_at\<close> from the first tag after it:
  for the tags v3, v2, v1 (at times 3, 2, 1) the target v2 is to give \<open>until_at = 2\<close>
  and \<open>since_at = 1\<close>, and the target v1 no \<open>since_at\<close>. The scan of the code stops at
  the first tag that is not the target, also before it has met the target: for both
  targets it reports that the tag does not exist, no \<open>until_at\<close>, and the time of v3 as
  \<open>since_at\<close>. Only for the first tag of the list, v3, is the range the one described.
\<close>

theorem range_of_later_tag:
  "resolve_range cl project example_tags ''v2'' None = (False, Some 3, None)
   \<and> resolve_range cl project example_tags ''v1'' None = (False, Some 3, None)
   \<and> resolve_range cl project example_tags ''v3'' None = (True, Some 2, Some 3)"
  by (simp add: resolve_range_def example_tags_def)

section \<open>Classification\<close>

text \<open>
  C8. \<^verbatim>\<open>feat(api): add X\<close> is a New Feature with summary \<^verbatim>\<open>api: add X\<close> (a scope
  other than \<^verbatim>\<open>*\<close> goes in front of the summary); \<^verbatim>\<open>chore: bump deps\<close> is Other with
  summary \<^verbatim>\<open>bump deps\<close>; a note without a colon is Other and is its own summary; and
  the category of a note is New Features for the type feat, Bug Fix for fix, Changes
  for refactor, Documentation for docs and Other for every other type.
\<close>

theorem classify_examples:
  "classify ''feat(api): add X'' = (TITLE_NEW_FEATURE, ''api: add X'')
   \<and> classify ''feat(*): add X'' = (TITLE_NEW_FEATURE, ''add X'')
   \<and> classify ''chore: bump deps'' = (TITLE_OTHER, ''bump deps'')
   \<and> classify ''no colon here'' = (TITLE_OTHER, ''no colon here'')
   \<and> (\<forall>item. fst (classify item) =
         (let ty = fst (strip_scope (split_item item))
          in if ty = ''feat'' then TITLE_NEW_FEATURE
             else if ty = ''fix'' then TITLE_BUG_FIX
             else if ty = ''refactor'' then TITLE_CHANGES
             else if ty = ''docs'' then TITLE_DOCUMENTATION
             else TITLE_OTHER))
   \<and> (\<forall>tag. dict_get KINDS tag DEFAULT_KIND =
         (if tag = ''feat'' then TITLE_NEW_FEATURE
          else if tag = ''fix'' then TITLE_BUG_FIX
          else if tag = ''refactor'' then TITLE_CHANGES
          else if tag = ''docs'' then TITLE_DOCUMENTATION
          else TITLE_OTHER))"
proof -
  have "fst (classify item) = dict_get KINDS (fst (strip_scope (split_item item))) DEFAULT_KIND"
    for item
    by (simp add: classify_def split: prod.splits)
  then have "\<forall>item. fst (classify item) =
         (let ty = fst (strip_scope (split_item item))
          in if ty = ''feat'' then TITLE_NEW_FEATURE
             else if ty = ''fix'' then TITLE_BUG_FIX
             else if ty = ''refactor'' then TITLE_CHANGES
             else if ty = ''docs'' then TITLE_DOCUMENTATION
             else TITLE_OTHER)"
    by (simp add: kinds_mapping)
  moreover have "classify ''feat(api): add X'' = (TITLE_NEW_FEATURE, ''api: add X'')"
    by code_simp
  moreover have "classify ''feat(*): add X'' = (TITLE_NEW_FEATURE, ''add X'')"
    by code_simp
  moreover have "classify ''chore: bump deps'' = (TITLE_OTHER, ''bump deps'')"
    by code_simp
  moreover have "classify ''no colon here'' = (TITLE_OTHER, ''no colon here'')"
    by code_simp
  ultimately show ?thesis
    using kinds_mapping by blast
qed

text \<open>
  C5, as the code has it. The test for a space reads the tag after the scope has been
  taken off. A note whose text before the first colon (trimmed) contains a space is
  Other, with the whole note as its summary, when that text is not of the form
  \<^verbatim>\<open>type(scope)\<close>; when it is, the space lies in the scope, the type decides the
  category, and the summary is split at the colon as for any other note.
\<close>

theorem space_guard_after_scope:
  assumes "CHR '' '' \<in> set (fst (split_item item))"
  shows "classify item =
     (case re_match TAG_MATCHER_RE (fst (split_item item)) of
        None \<Rightarrow> (TITLE_OTHER, item)
      | Some (g1, scope) \<Rightarrow>
          (dict_get KINDS g1 DEFAULT_KIND,
           if scope \<noteq> [] \<and> scope \<noteq> ''*''
           then scope @ '': '' @ snd (split_item item) else snd (split_item item)))"
proof (cases "re_match TAG_MATCHER_RE (fst (split_item item))")
  case None
  obtain tag summary where si: "split_item item = (tag, summary)"
    by (cases "split_item item")
  with assms have sp: "CHR '' '' \<in> set tag" by simp
  then have ne: "tag \<noteq> []" by auto
  have k: "dict_get KINDS tag DEFAULT_KIND = TITLE_OTHER"
    using sp by (auto simp: kinds_mapping)
  from None si have "strip_scope (tag, summary) = (tag, summary)"
    by (simp add: strip_scope_def)
  then show ?thesis using None si sp ne k by (simp add: classify_def)
next
  case (Some a)
  obtain g1 scope where a: "a = (g1, scope)" by (cases a)
  obtain tag summary where si: "split_item item = (tag, summary)"
    by (cases "split_item item")
  from Some a si have m: "re_match TAG_MATCHER_RE tag = Some (g1, scope)" by simp
  then have "(g1, scope) \<in> set (TAG_MATCHER_RE tag)"
    by (auto simp: re_match_Some)
  from tag_matcher_groups[OF this] have g: "CHR '' '' \<notin> set g1" "CHR ''('' \<in> set tag"
    by auto
  show ?thesis using m si g Some a by (simp add: classify_def strip_scope_def)
qed

theorem space_guard_after_scope_witness:
  "CHR '' '' \<in> set (fst (split_item ''foo bar: x''))
   \<and> classify ''foo bar: x'' = (TITLE_OTHER, ''foo bar: x'')"
proof -
  have h: "CHR '' '' \<in> set (fst (split_item ''foo bar: x''))" by code_simp
  have m: "re_match TAG_MATCHER_RE (fst (split_item ''foo bar: x'')) = None" by code_simp
  show ?thesis using h space_guard_after_scope[OF h] m by simp
qed

text \<open>C5, as stated, fails when the space lies in the scope: the text before the colon
  of \<^verbatim>\<open>feat(a b): x\<close> contains a space, and the note is a New Feature with the summary
  \<^verbatim>\<open>a b: x\<close>.\<close>

theorem space_in_scope_not_guarded:
  "CHR '' '' \<in> set (fst (split_item ''feat(a b): x''))
   \<and> classify ''feat(a b): x'' = (TITLE_NEW_FEATURE, ''a b: x'')
   \<and> classify ''feat(a b): x'' \<noteq> (TITLE_OTHER, ''feat(a b): x'')"
  by code_simp

section \<open>Rendering\<close>

text \<open>
  C2. Every section is to be its header line and then one line \<^verbatim>\<open>- summary\<close> for
  each summary. The code writes \<^verbatim>\<open>- \<close> after the header and again in front of every
  summary, so the first item of every section reads \<^verbatim>\<open>- - summary\<close>: two fixes a
  and b render as the header, \<^verbatim>\<open>- - a\<close> and \<^verbatim>\<open>- b\<close>.
\<close>

theorem join_notes_first_item:
  "join_notes [''fix: a'', ''fix: b''] = ''**Bug Fix:**\<newline>- - a\<newline>- b\<newline>''
   \<and> (\<forall>kind x xs. render_section kind (x # xs) =
          kind @ [CHR 0x0A] @ ''- - '' @ x @ concat (map (\<lambda>item. [CHR 0x0A] @ ''- '' @ item) xs)
            @ [CHR 0x0A])"
proof -
  have "join_notes [''fix: a'', ''fix: b''] = ''**Bug Fix:**\<newline>- - a\<newline>- b\<newline>''"
    by code_simp
  moreover have "render_section kind (x # xs) =
          kind @ [CHR 0x0A] @ ''- - '' @ x @ concat (map (\<lambda>item. [CHR 0x0A] @ ''- '' @ item) xs)
            @ [CHR 0x0A]" for kind x xs
    unfolding render_section_def py_join_map_Cons by simp
  ultimately show ?thesis by blast
qed

text \<open>
  C4. Re-parsing the rendered markdown as the batch command does is to give back the
  summaries of every category. Since the first item of a section is rendered as
  \<^verbatim>\<open>- - summary\<close>, the parser, which takes off one \<^verbatim>\<open>-\<close>, returns \<^verbatim>\<open>- a\<close> for the
  first summary \<^verbatim>\<open>a\<close> of the section (after the name of the project, which it puts in
  front of every item); the later items come back as they were grouped.
\<close>

theorem reparse_first_item:
  "group_notes [''fix: a'', ''fix: b''] TITLE_BUG_FIX = Some [''a'', ''b'']
   \<and> parse_release_notes (join_notes [''fix: a'', ''fix: b'']) ''p'' ''bug_fixes''
       = Some [''**p**: - a'', ''**p**: b'']"
  by code_simp

section \<open>Exclusion\<close>



section \<open>The trailer of a merge commit\<close>




text \<open>
  C10. The extraction returns a number that is never negative, whatever the message;
  a fetch is submitted only for numbers above zero; a message whose trailer digits are
  all zero yields zero, so its commit adds no identifier to the fetches and no merge
  request to the result.
\<close>

theorem zero_iid_not_fetched:
  "0 \<le> mr_num_for_commit_from_message msg
   \<and> (\<forall>fut \<in> set (submit_all commits cl project). 0 < fst fut)
   \<and> mr_num_for_commit_from_message (pre @ ''!'' @ replicate (Suc k) CHR ''0'') = 0
   \<and> (mr_num_for_commit_from_message (commit_message c) = 0 \<longrightarrow>
        submit_all (before @ c # after) cl project = submit_all (before @ after) cl project
        \<and> mr_from_commits ac (before @ c # after) cl project
            = mr_from_commits ac (before @ after) cl project)"
proof -
  have 2: "\<forall>fut \<in> set (submit_all commits cl project). 0 < fst fut"
    by (auto simp: submit_all_def mr_iids_def)
  have 4: "mr_num_for_commit_from_message (commit_message c) = 0 \<longrightarrow>
        submit_all (before @ c # after) cl project = submit_all (before @ after) cl project
        \<and> mr_from_commits ac (before @ c # after) cl project
            = mr_from_commits ac (before @ after) cl project"
    by (auto simp: mr_from_commits_def submit_all_def mr_iids_def)
  from mr_num_nonneg 2 mr_num_zero_digits 4 show ?thesis by blast
qed

theorem zero_iid_not_fetched_witness:
  "mr_num_for_commit_from_message (commit_message zero_commit) = 0
   \<and> submit_all (zero_commit # example_commits) (example_client example_tags) ''p''
       = submit_all example_commits (example_client example_tags) ''p''
   \<and> mr_from_commits (\<lambda>fs. fs) (zero_commit # example_commits) (example_client example_tags) ''p''
       = mr_from_commits (\<lambda>fs. fs) example_commits (example_client example_tags) ''p''"
proof -
  have "commit_message zero_commit
      = ''Merge branch 'z' into 'main'\<newline>\<newline>See merge request grp/prj'' @ ''!'' @ replicate (Suc 0) CHR ''0''"
    by (simp add: zero_commit_def)
  with zero_iid_not_fetched[where k = 0
      and pre = "''Merge branch 'z' into 'main'\<newline>\<newline>See merge request grp/prj''"]
  have z: "mr_num_for_commit_from_message (commit_message zero_commit) = 0" by simp
  with zero_iid_not_fetched[where c = zero_commit and before = "[]" and after = example_commits
      and cl = "example_client example_tags" and project = "''p''" and ac = "\<lambda>fs. fs"]
  show ?thesis by simp
qed

section \<open>The pipeline\<close>

text \<open>
  C9. When the range has a \<open>since_at\<close> and the commit listing is not empty, the
  merge requests are resolved from the listing without its first commit; when
  \<open>since_at\<close> is absent, from the whole listing.
\<close>

theorem boundary_commit_dropped:
  assumes "list_tags cl project = Inr tags" and "tags \<noteq> []"
    and "resolve_range cl project tags target since = (tag_exists, since_at, until_at)"
    and "list_commits cl project ref since_at until_at = Inr (c # commits)"
  shows "get_release_notes_by_tag ac cl project target ref since =
     (tag_exists,
      generate_release_notes
        (mr_from_commits ac (if since_at = None then c # commits else commits) cl project)
        condition,
      None)"
  using assms by (simp add: get_release_notes_by_tag_def skip_boundary_def)

theorem boundary_commit_dropped_witness:
  "get_release_notes_by_tag (\<lambda>fs. fs) (example_client example_tags) ''p'' ''v3'' ''main'' None =
     (True, ''**Bug Fix:**\<newline>- - crash ([!11](http://forge/mr)) @bob\<newline>'', None)
   \<and> get_release_notes_by_tag (\<lambda>fs. fs) (example_client [hd example_tags]) ''p'' ''v3'' ''main'' None =
     (True, ''**Bug Fix:**\<newline>- - crash ([!9](http://forge/mr)) @bob\<newline>- crash ([!11](http://forge/mr)) @bob\<newline>'', None)"
proof -
  have 1: "list_tags (example_client example_tags) ''p'' = Inr example_tags"
    by (simp add: example_client_def)
  have 2: "example_tags \<noteq> []" by (simp add: example_tags_def)
  have 3: "resolve_range (example_client example_tags) ''p'' example_tags ''v3'' None
      = (True, Some 2, Some 3)"
    by (simp add: resolve_range_def example_tags_def)
  have 4: "list_commits (example_client example_tags) ''p'' ''main'' (Some 2) (Some 3)
      = Inr (hd example_commits # tl example_commits)"
    by (simp add: example_client_def example_commits_def)
  have 5: "generate_release_notes
        (mr_from_commits (\<lambda>fs. fs) (tl example_commits) (example_client example_tags) ''p'') condition
     = ''**Bug Fix:**\<newline>- - crash ([!11](http://forge/mr)) @bob\<newline>''"
    by code_simp
  have a: "get_release_notes_by_tag (\<lambda>fs. fs) (example_client example_tags) ''p'' ''v3'' ''main'' None =
     (True, ''**Bug Fix:**\<newline>- - crash ([!11](http://forge/mr)) @bob\<newline>'', None)"
    using boundary_commit_dropped[OF 1 2 3 4] 5 by simp
  have 6: "list_tags (example_client [hd example_tags]) ''p'' = Inr [hd example_tags]"
    by (simp add: example_client_def)
  have 7: "[hd example_tags] \<noteq> []" by simp
  have 8: "resolve_range (example_client [hd example_tags]) ''p'' [hd example_tags] ''v3'' None
      = (True, None, Some 3)"
    by (simp add: resolve_range_def example_tags_def)
  have 9: "list_commits (example_client [hd example_tags]) ''p'' ''main'' None (Some 3)
      = Inr (hd example_commits # tl example_commits)"
    by (simp add: example_client_def example_commits_def)
  have 10: "generate_release_notes
        (mr_from_commits (\<lambda>fs. fs) (hd example_commits # tl example_commits)
           (example_client [hd example_tags]) ''p'') condition
     = ''**Bug Fix:**\<newline>- - crash ([!9](http://forge/mr)) @bob\<newline>- crash ([!11](http://forge/mr)) @bob\<newline>''"
    by code_simp
  have b: "get_release_notes_by_tag (\<lambda>fs. fs) (example_client [hd example_tags]) ''p'' ''v3'' ''main'' None =
     (True, ''**Bug Fix:**\<newline>- - crash ([!9](http://forge/mr)) @bob\<newline>- crash ([!11](http://forge/mr)) @bob\<newline>'', None)"
    using boundary_commit_dropped[OF 6 7 8 9] 10 by simp
  from a b show ?thesis by blast
qed

text \<open>
  C7, as the code has it. The pipeline returns an error exactly when the tag listing
  raises or is empty, or the commit listing raises; the result is then \<open>False\<close>, the
  empty markdown and the error. Whether the lookup of the \<^verbatim>\<open>since\<close> commit or the
  fetch of a merge request raises plays no part: those exceptions are caught where they
  arise. An empty commit listing, and merge requests that are all filtered out, give
  the empty markdown with \<open>tag_exists\<close> and no error.
\<close>

theorem pipeline_errors:
  assumes "r = get_release_notes_by_tag ac cl project target ref since"
  shows "(snd (snd r) \<noteq> None \<longleftrightarrow>
            (case list_tags cl project of
               Inl e \<Rightarrow> True
             | Inr tags \<Rightarrow>
                 tags = [] \<or>
                 (case resolve_range cl project tags target since of
                    (tag_exists, since_at, until_at) \<Rightarrow>
                      isl (list_commits cl project ref since_at until_at))))
       \<and> (snd (snd r) \<noteq> None \<longrightarrow> fst r = False \<and> fst (snd r) = [])
       \<and> (list_tags cl project = Inr [] \<longrightarrow>
             r = (False, [], Some (Exception ''No tags found in project'')))
       \<and> (\<forall>tags tag_exists since_at until_at commits.
             list_tags cl project = Inr tags \<and> tags \<noteq> []
             \<and> resolve_range cl project tags target since = (tag_exists, since_at, until_at)
             \<and> list_commits cl project ref since_at until_at = Inr commits
             \<and> (commits = []
                \<or> filter condition (mr_from_commits ac (skip_boundary commits since_at) cl project) = [])
             \<longrightarrow> r = (tag_exists, [], None))"
  using assms
  by (auto simp: get_release_notes_by_tag_def generate_release_notes_def join_notes_Nil
           split: sum.splits prod.splits)

theorem pipeline_errors_witness:
  "snd (snd (get_release_notes_by_tag (\<lambda>fs. fs) (example_client []) ''p'' ''v3'' ''main'' None)) \<noteq> None
   \<and> fst (get_release_notes_by_tag (\<lambda>fs. fs) (example_client []) ''p'' ''v3'' ''main'' None) = False
   \<and> fst (snd (get_release_notes_by_tag (\<lambda>fs. fs) (example_client []) ''p'' ''v3'' ''main'' None)) = []
   \<and> get_release_notes_by_tag (\<lambda>fs. fs) failing_client ''p'' ''v3'' ''main'' None = (True, [], None)"
proof -
  have t: "list_tags (example_client []) ''p'' = Inr []" by (simp add: example_client_def)
  have a: "snd (snd (get_release_notes_by_tag (\<lambda>fs. fs) (example_client []) ''p'' ''v3'' ''main'' None)) \<noteq> None"
    using pipeline_errors[OF refl, of "\<lambda>fs. fs" "example_client []" "''p''" "''v3''" "''main''" None] t
    by simp
  with pipeline_errors[OF refl, of "\<lambda>fs. fs" "example_client []" "''p''" "''v3''" "''main''" None]
  have b: "fst (get_release_notes_by_tag (\<lambda>fs. fs) (example_client []) ''p'' ''v3'' ''main'' None) = False
    \<and> fst (snd (get_release_notes_by_tag (\<lambda>fs. fs) (example_client []) ''p'' ''v3'' ''main'' None)) = []"
    by blast
  have 1: "list_tags failing_client ''p'' = Inr example_tags" by (simp add: failing_client_def)
  have 2: "example_tags \<noteq> []" by (simp add: example_tags_def)
  have 3: "resolve_range failing_client ''p'' example_tags ''v3'' None = (True, Some 2, Some 3)"
    by (simp add: resolve_range_def example_tags_def)
  have 4: "list_commits failing_client ''p'' ''main'' (Some 2) (Some 3) = Inr example_commits"
    by (simp add: failing_client_def)
  have 5: "filter condition
       (mr_from_commits (\<lambda>fs. fs) (skip_boundary example_commits (Some 2)) failing_client ''p'') = []"
    by code_simp
  have c: "get_release_notes_by_tag (\<lambda>fs. fs) failing_client ''p'' ''v3'' ''main'' None = (True, [], None)"
    using pipeline_errors[OF refl, of "\<lambda>fs. fs" failing_client "''p''" "''v3''" "''main''" None]
      1 2 3 4 5 by blast
  from a b c show ?thesis by blast
qed

text \<open>C7, as stated, fails when the fetch of a merge request raises, and when the lookup
  of the \<^verbatim>\<open>since\<close> commit raises: the pipeline returns no error.\<close>

theorem fetch_failure_is_no_error:
  "mr_iids (skip_boundary example_commits (Some 2)) = [11]
   \<and> get_merge_request failing_client ''p'' 11 = Inl (Exception ''fetch failed'')
   \<and> get_release_notes_by_tag (\<lambda>fs. fs) failing_client ''p'' ''v3'' ''main'' None
       = (True, [], None)
   \<and> get_commit failing_client ''p'' ''deadbeef'' = Inl (Exception ''lookup failed'')
   \<and> get_release_notes_by_tag (\<lambda>fs. fs) failing_client ''p'' ''v3'' ''main'' (Some ''deadbeef'')
       = (True, [], None)"
  by code_simp

end
